theory Spec2Isabelle
  imports Complex_Main
begin

section \<open>Messenger interfaces of chatsky: the lifecycle and the polling worker pool\<close>

text \<open>
  The development follows \<^verbatim>\<open>chatsky/messengers/common/interface.py\<close>. Every method
  is a function on the attributes of \<^verbatim>\<open>self\<close>; it returns the exception it raises
  (\<open>Inl\<close>) or its value (\<open>Inr\<close>) together with the attributes as it leaves them.
  A coroutine that never resumes has the value \<open>None\<close>. Everything the methods do to the
  outside (log lines, queue operations, lock operations, calls of the pipeline) is
  appended to the \<open>events\<close> list, in the order the statements run.
\<close>

subsection \<open>Values, exceptions, observable events\<close>

type_synonym ctx_id = string
type_synonym message = string
type_synonym response = string
type_synonym request = "ctx_id \<times> message"

datatype exn =
    AttributeError
  | TypeError
  | ValueError
  | TimeoutError
  | AsyncioTimeoutError
  | CancelledError
  | OtherException string

datatype level = DEBUG | INFO | ERROR

datatype event =
    Log level string
  | SetRunning bool
  | QueuePut "request option"
  | QueueGet "request option"
  | LockAcquire ctx_id
  | LockRelease ctx_id
  | RunPipeline message ctx_id
  | Respond ctx_id response
  | Sleep real
  | SigintHandlerInstalled
  | TaskCreated
  | TaskCancel
  | CleanupCalled

text \<open>
  An attribute of a Python object exists only once it has been assigned; reading one that
  was never assigned raises \<open>AttributeError\<close>, and so does reading an attribute of
  \<^verbatim>\<open>None\<close>.
\<close>

datatype 'a attr = Absent | Attr 'a

text \<open>
  A task handle. \<^verbatim>\<open>Task.cancel()\<close> does nothing to a task that is done and requests the
  cancellation of one that is not; awaiting a done task gives its stored outcome.
\<close>

datatype task = Running | Cancelling | Done "exn + unit"

fun task_cancel :: "task \<Rightarrow> task" where
  "task_cancel (Done outcome) = Done outcome"
| "task_cancel Running = Cancelling"
| "task_cancel Cancelling = Cancelling"

text \<open>
  Awaiting a task after \<^verbatim>\<open>cancel()\<close>: \<open>on_cancel\<close> is how the task's coroutine ends
  once the cancellation reaches it (\<open>Inl CancelledError\<close> unless it intercepts it).
\<close>

fun task_await :: "exn + unit \<Rightarrow> task \<Rightarrow> exn + unit" where
  "task_await on_cancel (Done outcome) = outcome"
| "task_await on_cancel Cancelling = on_cancel"
| "task_await on_cancel Running = on_cancel"

subsection \<open>Awaited operations and \<^verbatim>\<open>asyncio.wait_for\<close>\<close>

text \<open>
  An operation of the environment (fetching updates, running the pipeline, sending a
  response) is described by the time it takes and by how it ends. A coroutine built from
  such operations also lists the events it produces, each with the time it happens at.
\<close>

type_synonym 'a awaited = "real \<times> (exn + 'a)"
type_synonym 'a coro = "(real \<times> event) list \<times> real \<times> (exn + 'a)"

definition atomic :: "'a awaited \<Rightarrow> 'a coro" where
  "atomic a = ([], fst a, snd a)"

text \<open>
  The exception that \<^verbatim>\<open>asyncio\<close> raises on a timeout depends on the interpreter. From
  Python 3.11 on \<^verbatim>\<open>asyncio.TimeoutError\<close> is the built-in \<^verbatim>\<open>TimeoutError\<close>, the class
  that the \<^verbatim>\<open>except TimeoutError\<close> clauses of the module name. Before 3.11 it is a class
  of its own (\<open>AsyncioTimeoutError\<close>), which such a clause does not catch. The package
  declares \<^verbatim>\<open>python_requires=">=3.7, <4"\<close>.
\<close>

datatype python = Before_3_11 | From_3_11

fun timeout_error :: "python \<Rightarrow> exn" where
  "timeout_error From_3_11 = TimeoutError"
| "timeout_error Before_3_11 = AsyncioTimeoutError"

text \<open>
  \<^verbatim>\<open>asyncio.wait_for(aw, timeout)\<close>: without a timeout the coroutine runs to its end.
  With a timeout it gives the coroutine's result only if the timeout is positive and the
  coroutine ends before the deadline; otherwise the coroutine is cancelled, the timeout
  exception is raised, and only the events that happened before the deadline remain
  (none at all for a timeout that is not positive: the coroutine is cancelled before it
  starts).
\<close>

fun wait_for :: "python \<Rightarrow> real option \<Rightarrow> 'a coro \<Rightarrow> event list \<times> (exn + 'a)" where
  "wait_for py None (evs, d, r) = (map snd evs, r)"
| "wait_for py (Some t) (evs, d, r) =
     (if 0 < t \<and> d < t then (map snd evs, r)
      else (map snd (filter (\<lambda>(tm, e). tm < t) evs), Inl (timeout_error py)))"

text \<open>
  \<^verbatim>\<open>asyncio.to_thread(f, *args)\<close> calls \<open>f\<close> in another thread and gives back what the
  call returns. \<^verbatim>\<open>_process_request\<close> is an \<^verbatim>\<open>async def\<close>, so the call returns its
  coroutine, which \<^verbatim>\<open>wait_for\<close> then runs.
\<close>

definition to_thread :: "'a \<Rightarrow> 'a" where
  "to_thread c = c"

subsection \<open>The pipeline\<close>

record "context" =
  last_response :: response

text \<open>
  Modelled from the spec: the class \<^verbatim>\<open>Pipeline\<close> is not among the sources. The
  interface uses \<^verbatim>\<open>pipeline._run_pipeline(update, ctx_id)\<close>, which returns the
  conversation's context, and \<^verbatim>\<open>pipeline.context_lock[ctx_id]\<close>, one lock per
  conversation id, created on first use; \<open>locked\<close> holds the ids whose lock is held.
\<close>

record pipeline =
  run_pipeline :: "message \<Rightarrow> ctx_id \<Rightarrow> context awaited"
  locked :: "ctx_id set"

subsection \<open>The objects\<close>

record iface =
  task :: "task option attr"
  pipeline :: "pipeline option attr"
  running_in_foreground :: "bool attr"
  running :: "bool attr"
  finished_working :: "bool attr"
  events :: "event list"

record polling = iface +
  request_queue :: "request option list"
  number_of_workers :: int
  worker_tasks :: "task list"

type_synonym runner = "message \<Rightarrow> ctx_id option \<Rightarrow> context awaited"

record callback = iface +
  pipeline_runner :: "runner option"

definition emit :: "event \<Rightarrow> 'a iface_scheme \<Rightarrow> 'a iface_scheme" where
  "emit e s = s\<lparr>events := events s @ [e]\<rparr>"

definition emits :: "event list \<Rightarrow> 'a iface_scheme \<Rightarrow> 'a iface_scheme" where
  "emits es s = s\<lparr>events := events s @ es\<rparr>"

text \<open>\<^verbatim>\<open>MessengerInterface.__init__\<close>\<close>

definition MessengerInterface_init :: "'a iface_scheme \<Rightarrow> 'a iface_scheme" where
  "MessengerInterface_init s =
     s\<lparr>task := Attr None, pipeline := Attr None, running_in_foreground := Attr False,
       running := Attr True, finished_working := Attr False\<rparr>"

text \<open>
  \<^verbatim>\<open>PollingMessengerInterface.__init__\<close>: the queue, the worker count, the empty list of
  worker tasks, then the base class's \<^verbatim>\<open>__init__\<close>.
\<close>

definition PollingMessengerInterface_init :: "int \<Rightarrow> polling" where
  "PollingMessengerInterface_init n =
     MessengerInterface_init
       \<lparr>task = Absent, pipeline = Absent, running_in_foreground = Absent, running = Absent,
        finished_working = Absent, events = [],
        request_queue = [], number_of_workers = n, worker_tasks = []\<rparr>"

text \<open>
  \<^verbatim>\<open>CallbackMessengerInterface.__init__\<close> assigns \<^verbatim>\<open>_pipeline_runner\<close> and nothing
  else: it does not call the base class's \<^verbatim>\<open>__init__\<close>.
\<close>

definition CallbackMessengerInterface_init :: callback where
  "CallbackMessengerInterface_init =
     \<lparr>task = Absent, pipeline = Absent, running_in_foreground = Absent, running = Absent,
      finished_working = Absent, events = [], pipeline_runner = None\<rparr>"

subsection \<open>\<^verbatim>\<open>MessengerInterface\<close>: cleanup, run_in_foreground, shutdown\<close>

abbreviation msg_shutdown_called :: string where
  "msg_shutdown_called \<equiv> ''messenger_interface.shutdown() called - shutting down interface''"

abbreviation msg_stopped :: string where
  "msg_stopped \<equiv> ''has stopped working - SIGINT received''"

text \<open>\<^verbatim>\<open>MessengerInterface.cleanup\<close>: the body is \<^verbatim>\<open>pass\<close>.\<close>

definition cleanup :: "'a iface_scheme \<Rightarrow> ((exn + unit) \<times> 'a iface_scheme) option" where
  "cleanup s = Some (Inr (), s)"

text \<open>
  \<^verbatim>\<open>MessengerInterface.run_in_foreground\<close>. \<open>connect_call\<close> is what the call
  \<^verbatim>\<open>self.connect(pipeline_runner, loop=..., poll_timeout=..., worker_timeout=..., timeout=...)\<close>
  of the object's class gives: an exception raised by the call itself, or the coroutine
  that the new task runs. \<open>cleanup_impl\<close> is the \<^verbatim>\<open>cleanup\<close> of the object's class.
\<close>

definition run_in_foreground ::
  "pipeline \<Rightarrow> (exn + ('a iface_scheme \<Rightarrow> ((exn + unit) \<times> 'a iface_scheme) option)) \<Rightarrow>
   ('a iface_scheme \<Rightarrow> ((exn + unit) \<times> 'a iface_scheme) option) \<Rightarrow>
   'a iface_scheme \<Rightarrow> ((exn + unit) \<times> 'a iface_scheme) option" where
  "run_in_foreground pl connect_call cleanup_impl s =
     (let s1 = s\<lparr>running_in_foreground := Attr True, pipeline := Attr (Some pl)\<rparr>;
          s2 = emit SigintHandlerInstalled s1
      in case connect_call of
           Inl e \<Rightarrow> Some (Inl e, s2)
         | Inr connect_coro \<Rightarrow>
             (case connect_coro (emit TaskCreated (s2\<lparr>task := Attr (Some Running)\<rparr>)) of
                None \<Rightarrow> None
              | Some (outcome, s3) \<Rightarrow>
                  (let s4 = s3\<lparr>task := Attr (Some (Done outcome))\<rparr>;
                       s5 = (if outcome = Inl CancelledError then emit (Sleep 0) s4 else s4)
                   in case cleanup_impl (emit CleanupCalled s5) of
                        None \<Rightarrow> None
                      | Some (Inl e, s6) \<Rightarrow> Some (Inl e, s6)
                      | Some (Inr u, s6) \<Rightarrow>
                          (case outcome of
                             Inl e \<Rightarrow>
                               if e = CancelledError
                               then Some (Inr (), s6\<lparr>finished_working := Attr True\<rparr>)
                               else Some (Inl e, s6)
                           | Inr u \<Rightarrow> Some (Inr (), s6\<lparr>finished_working := Attr True\<rparr>)))))"

text \<open>
  Two moments of \<^verbatim>\<open>run_in_foreground\<close>, named for the statements about it: the object
  as the new task finds it, and the object as \<^verbatim>\<open>cleanup\<close> finds it once the task has
  ended with \<open>outcome\<close> and left the object \<open>s3\<close>.
\<close>

definition foreground_start :: "pipeline \<Rightarrow> 'a iface_scheme \<Rightarrow> 'a iface_scheme" where
  "foreground_start pl s =
     emit TaskCreated
       ((emit SigintHandlerInstalled
           (s\<lparr>running_in_foreground := Attr True, pipeline := Attr (Some pl)\<rparr>))
          \<lparr>task := Attr (Some Running)\<rparr>)"

definition before_cleanup :: "exn + unit \<Rightarrow> 'a iface_scheme \<Rightarrow> 'a iface_scheme" where
  "before_cleanup outcome s3 =
     emit CleanupCalled
       (if outcome = Inl CancelledError
        then emit (Sleep 0) (s3\<lparr>task := Attr (Some (Done outcome))\<rparr>)
        else s3\<lparr>task := Attr (Some (Done outcome))\<rparr>)"

text \<open>
  \<^verbatim>\<open>MessengerInterface.shutdown\<close>. \<open>on_cancel\<close> is how the connect task ends once it
  is cancelled. The last log line starts with the name of the object's class in the
  source; the name is left out here.
\<close>

definition shutdown :: "exn + unit \<Rightarrow> 'a iface_scheme \<Rightarrow> (exn + unit) \<times> 'a iface_scheme" where
  "shutdown on_cancel s =
     (let s1 = emit (Log INFO msg_shutdown_called) s;
          s2 = emit (SetRunning False) (s1\<lparr>running := Attr False\<rparr>)
      in case task s2 of
           Absent \<Rightarrow> (Inl AttributeError, s2)
         | Attr None \<Rightarrow> (Inl AttributeError, s2)
         | Attr (Some t) \<Rightarrow>
             (let s3 = emit TaskCancel (s2\<lparr>task := Attr (Some (task_cancel t))\<rparr>);
                  outcome = task_await on_cancel (task_cancel t);
                  s4 = s3\<lparr>task := Attr (Some (Done outcome))\<rparr>
              in case outcome of
                   Inr u \<Rightarrow> (Inr (), emit (Log INFO msg_stopped) s4)
                 | Inl e \<Rightarrow>
                     if e = CancelledError then
                       (case finished_working s4 of
                          Absent \<Rightarrow> (Inl AttributeError, s4)
                        | Attr fw \<Rightarrow>
                            if \<not> fw then (Inl CancelledError, s4)
                            else (Inr (), emit (Log INFO msg_stopped) s4))
                     else (Inl e, s4)))"

subsection \<open>\<^verbatim>\<open>PollingMessengerInterface\<close>: the workers\<close>

abbreviation msg_worker_finished :: string where
  "msg_worker_finished \<equiv>
     ''Worker finished working - all remaining requests have been processed.''"

definition queue_put :: "request option \<Rightarrow> polling \<Rightarrow> polling" where
  "queue_put item s = emit (QueuePut item) (s\<lparr>request_queue := request_queue s @ [item]\<rparr>)"

text \<open>
  \<^verbatim>\<open>_process_request\<close>: run the pipeline on the update, then hand the context's last
  response to \<^verbatim>\<open>_respond\<close> (abstract in the class: the parameter \<open>respond\<close>).
\<close>

definition process_request ::
  "(ctx_id \<Rightarrow> response \<Rightarrow> unit awaited) \<Rightarrow> ctx_id \<Rightarrow> message \<Rightarrow> pipeline \<Rightarrow> unit coro" where
  "process_request respond ctx_id update pl =
     (case run_pipeline pl update ctx_id of
        (d1, Inl e) \<Rightarrow> ([(0, RunPipeline update ctx_id)], d1, Inl e)
      | (d1, Inr ctx) \<Rightarrow>
          (case respond ctx_id (last_response ctx) of
             (d2, r) \<Rightarrow>
               ([(0, RunPipeline update ctx_id), (d1, Respond ctx_id (last_response ctx))],
                d1 + d2, r)))"

text \<open>
  \<^verbatim>\<open>_worker_job\<close>. \<^verbatim>\<open>request_queue.get()\<close> on an empty queue and the acquisition of a
  lock that is held suspend the coroutine. Leaving the \<^verbatim>\<open>async with\<close> block releases the
  lock, also when \<^verbatim>\<open>wait_for\<close> raises.
\<close>

definition worker_job ::
  "python \<Rightarrow> (ctx_id \<Rightarrow> response \<Rightarrow> unit awaited) \<Rightarrow> real option \<Rightarrow> polling \<Rightarrow>
   ((exn + bool) \<times> polling) option" where
  "worker_job py respond worker_timeout s =
     (case request_queue s of
        [] \<Rightarrow> None
      | request # rest \<Rightarrow>
          (let s1 = emit (QueueGet request) (s\<lparr>request_queue := rest\<rparr>)
           in case request of
                None \<Rightarrow> Some (Inr True, s1)
              | Some (ctx_id, update) \<Rightarrow>
                  (case pipeline s1 of
                     Absent \<Rightarrow> Some (Inl AttributeError, s1)
                   | Attr None \<Rightarrow> Some (Inl AttributeError, s1)
                   | Attr (Some pl) \<Rightarrow>
                       if ctx_id \<in> locked pl then None
                       else
                         (let s2 = emit (LockAcquire ctx_id)
                                (s1\<lparr>pipeline := Attr (Some (pl\<lparr>locked := insert ctx_id (locked pl)\<rparr>))\<rparr>);
                              (evs, r) = wait_for py worker_timeout
                                (to_thread (process_request respond ctx_id update pl));
                              s3 = emit (LockRelease ctx_id)
                                ((emits evs s2)\<lparr>pipeline := Attr (Some (pl\<lparr>locked := locked pl - {ctx_id}\<rparr>))\<rparr>)
                          in case r of
                               Inl e \<Rightarrow> Some (Inl e, s3)
                             | Inr u \<Rightarrow> Some (Inr False, s3)))))"

text \<open>
  What a Python expression evaluates to in \<^verbatim>\<open>_worker\<close>: the call of an \<^verbatim>\<open>async def\<close>
  gives a coroutine object and runs nothing of its body until it is awaited; awaiting it
  would give the \<^verbatim>\<open>bool\<close> the body returns. In a condition a coroutine object counts
  as true, a \<^verbatim>\<open>bool\<close> as itself.
\<close>

datatype 'c pyobj = Coroutine 'c | Future 'c | PyBool bool

fun truthy :: "'c pyobj \<Rightarrow> bool" where
  "truthy (Coroutine c) = True"
| "truthy (Future c) = True"
| "truthy (PyBool b) = b"

text \<open>
  \<^verbatim>\<open>_worker\<close>. The loop body assigns \<^verbatim>\<open>self._worker_job(worker_timeout=worker_timeout)\<close>
  to \<^verbatim>\<open>no_more_jobs\<close> without awaiting it and tests the variable. Nothing inside the
  \<^verbatim>\<open>try\<close> raises, so the \<^verbatim>\<open>except TimeoutError\<close> branch is never taken.
\<close>

partial_function (option) worker ::
  "python \<Rightarrow> (ctx_id \<Rightarrow> response \<Rightarrow> unit awaited) \<Rightarrow> real option \<Rightarrow> polling \<Rightarrow>
   ((exn + unit) \<times> polling) option" where
  "worker py respond worker_timeout s =
     (case running s of
        Absent \<Rightarrow> Some (Inl AttributeError, s)
      | Attr r \<Rightarrow>
          if r \<or> request_queue s \<noteq> [] then
            (let no_more_jobs = Coroutine (worker_job py respond worker_timeout)
             in if truthy no_more_jobs
                then Some (Inr (), emit (Log INFO msg_worker_finished) s)
                else worker py respond worker_timeout s)
          else Some (Inr (), s))"

text \<open>
  The pool: the worker coroutines share the object. A worker never suspends (it awaits
  nothing), so whichever order the event loop starts them in, each runs from its first
  statement to its last before the next one starts.
\<close>

fun run_workers ::
  "python \<Rightarrow> (ctx_id \<Rightarrow> response \<Rightarrow> unit awaited) \<Rightarrow> real option \<Rightarrow> nat \<Rightarrow> polling \<Rightarrow>
   polling option" where
  "run_workers py respond worker_timeout 0 s = Some s"
| "run_workers py respond worker_timeout (Suc n) s =
     (case worker py respond worker_timeout s of
        None \<Rightarrow> None
      | Some (r, s') \<Rightarrow> run_workers py respond worker_timeout n s')"

fun is_run :: "event \<Rightarrow> bool" where
  "is_run (RunPipeline update ctx_id) = True"
| "is_run e = False"

definition runner_invocations :: "'a iface_scheme \<Rightarrow> nat" where
  "runner_invocations s = length (filter is_run (events s))"

subsection \<open>\<^verbatim>\<open>PollingMessengerInterface\<close>: polling\<close>

abbreviation msg_poll_timeout :: string where
  "msg_poll_timeout \<equiv> ''polling_job failed - timed out''"

abbreviation msg_loop_false :: string where
  "msg_loop_false \<equiv> ''polling_loop stopped working - the loop() condition was false''"

abbreviation msg_stop_signal :: string where
  "msg_stop_signal \<equiv> ''polling_loop stopped working - the stop signal was received.''"

text \<open>
  \<^verbatim>\<open>_polling_job\<close>. \<open>fetch\<close> is this call of \<^verbatim>\<open>_get_updates()\<close> (abstract in the
  class). The queue is unbounded, so \<^verbatim>\<open>put\<close> never waits. The \<^verbatim>\<open>except\<close> clause
  names the built-in \<^verbatim>\<open>TimeoutError\<close>.
\<close>

definition polling_job ::
  "python \<Rightarrow> (request list option) awaited \<Rightarrow> real option \<Rightarrow> polling \<Rightarrow>
   (exn + unit) \<times> polling" where
  "polling_job py fetch poll_timeout s =
     (case wait_for py poll_timeout (atomic fetch) of
        (evs, Inl e) \<Rightarrow>
          if e = TimeoutError then (Inr (), emit (Log DEBUG msg_poll_timeout) s)
          else (Inl e, s)
      | (evs, Inr received_updates) \<Rightarrow>
          (case received_updates of
             None \<Rightarrow> (Inr (), s)
           | Some updates \<Rightarrow> (Inr (), foldl (\<lambda>s' update. queue_put (Some update) s') s updates)))"

text \<open>
  The surroundings of one run of the polling loop: the interpreter, what the \<open>k\<close>-th
  call of \<^verbatim>\<open>loop()\<close> returns or raises, what the \<open>i\<close>-th fetch does, and what reaches
  the loop from other coroutines while cycle \<open>i\<close> is suspended: nothing, another
  coroutine clearing \<^verbatim>\<open>self.running\<close>, or the cancellation of the task, either while
  the shielded job is still fetching or during the sleep after it.
\<close>

datatype signal = NoSignal | StopRequested | CancelledInFetch | CancelledInSleep

record env =
  python :: python
  loop :: "nat \<Rightarrow> exn + bool"
  get_updates :: "nat \<Rightarrow> (request list option) awaited"
  signals :: "nat \<Rightarrow> signal"

text \<open>
  The \<^verbatim>\<open>while loop() and self.running\<close> loop of \<^verbatim>\<open>_polling_loop\<close>, from cycle \<open>i\<close>
  on, for at most \<open>fuel\<close> tests of the condition. It gives how the loop was left
  (normally or by an exception), the index of the last call of \<^verbatim>\<open>loop()\<close>, and the
  object.
\<close>

fun polling_while ::
  "env \<Rightarrow> real option \<Rightarrow> real \<Rightarrow> nat \<Rightarrow> nat \<Rightarrow> polling \<Rightarrow>
   ((exn + unit) \<times> nat \<times> polling) option" where
  "polling_while env poll_timeout timeout i 0 s = None"
| "polling_while env poll_timeout timeout i (Suc fuel) s =
     (case loop env i of
        Inl e \<Rightarrow> Some (Inl e, i, s)
      | Inr b \<Rightarrow>
          if \<not> b then Some (Inr (), i, s)
          else case running s of
                 Absent \<Rightarrow> Some (Inl AttributeError, i, s)
               | Attr r \<Rightarrow>
                   if \<not> r then Some (Inr (), i, s)
                   else if signals env i = CancelledInFetch
                   then Some (Inl CancelledError, i, s)
                   else
                     (case polling_job (python env) (get_updates env i) poll_timeout s of
                        (Inl e, s1) \<Rightarrow> Some (Inl e, i, s1)
                      | (Inr u, s1) \<Rightarrow>
                          (let s2 = emit (Sleep timeout) s1
                           in if signals env i = CancelledInSleep
                              then Some (Inl CancelledError, i, s2)
                              else polling_while env poll_timeout timeout (Suc i) fuel
                                     (if signals env i = StopRequested
                                      then s2\<lparr>running := Attr False\<rparr> else s2))))"

text \<open>
  The \<^verbatim>\<open>finally\<close> block of \<^verbatim>\<open>_polling_loop\<close>; \<open>loop_again\<close> is what its own call of
  \<^verbatim>\<open>loop()\<close> gives. When that call raises, the block ends there, after the assignment
  to \<^verbatim>\<open>self.running\<close> and before any sentinel. \<^verbatim>\<open>range(n)\<close> is empty for \<open>n \<le> 0\<close>.
\<close>

definition polling_loop_finally :: "exn + bool \<Rightarrow> polling \<Rightarrow> (exn + unit) \<times> polling" where
  "polling_loop_finally loop_again s =
     (let s1 = emit (SetRunning False) (s\<lparr>running := Attr False\<rparr>)
      in case loop_again of
           Inl e \<Rightarrow> (Inl e, s1)
         | Inr b \<Rightarrow>
             (let s2 = (if b = False then emit (Log INFO msg_loop_false) s1
                        else emit (Log INFO msg_stop_signal) s1)
              in (Inr (), foldl (\<lambda>s' i. queue_put None s') s2 [0..<nat (number_of_workers s2)])))"

text \<open>
  \<^verbatim>\<open>_polling_loop\<close>: the loop, then the \<^verbatim>\<open>finally\<close> block on every way out. An
  exception of the \<^verbatim>\<open>finally\<close> block replaces the one that left the loop; otherwise the
  loop's own outcome stands.
\<close>

definition polling_loop ::
  "env \<Rightarrow> real option \<Rightarrow> real \<Rightarrow> nat \<Rightarrow> polling \<Rightarrow> ((exn + unit) \<times> polling) option" where
  "polling_loop env poll_timeout timeout fuel s =
     (case polling_while env poll_timeout timeout 0 fuel s of
        None \<Rightarrow> None
      | Some (r, i, s1) \<Rightarrow>
          (case polling_loop_finally (loop env (Suc i)) s1 of
             (Inl e, s2) \<Rightarrow> Some (Inl e, s2)
           | (Inr u, s2) \<Rightarrow> Some (r, s2)))"

text \<open>
  \<^verbatim>\<open>asyncio.shield(aw)\<close> wraps the awaitable in a task of its own and returns a future
  for it. \<^verbatim>\<open>asyncio.create_task(coro)\<close> accepts a coroutine and nothing else: given a
  future it raises \<open>TypeError\<close>.
\<close>

fun shield :: "'c pyobj \<Rightarrow> exn + 'c pyobj" where
  "shield (Coroutine c) = Inr (Future c)"
| "shield (Future c) = Inr (Future c)"
| "shield (PyBool b) = Inl TypeError"

fun create_task :: "'c pyobj \<Rightarrow> exn + task" where
  "create_task (Coroutine c) = Inr Running"
| "create_task (Future c) = Inl TypeError"
| "create_task (PyBool b) = Inl TypeError"

text \<open>
  The \<^verbatim>\<open>for\<close> loop of \<^verbatim>\<open>PollingMessengerInterface.connect\<close>: every iteration evaluates
  \<^verbatim>\<open>asyncio.create_task(asyncio.shield(self._worker(worker_timeout)))\<close> and appends the
  task to \<^verbatim>\<open>_worker_tasks\<close>. (The worker that \<^verbatim>\<open>shield\<close> has wrapped runs later, on
  its own; what it does then is \<open>worker\<close>.)
\<close>

fun spawn_workers ::
  "python \<Rightarrow> (ctx_id \<Rightarrow> response \<Rightarrow> unit awaited) \<Rightarrow> real option \<Rightarrow> nat \<Rightarrow> polling \<Rightarrow>
   (exn + unit) \<times> polling" where
  "spawn_workers py respond worker_timeout 0 s = (Inr (), s)"
| "spawn_workers py respond worker_timeout (Suc n) s =
     (case shield (Coroutine (worker py respond worker_timeout)) of
        Inl e \<Rightarrow> (Inl e, s)
      | Inr shielded \<Rightarrow>
          (case create_task shielded of
             Inl e \<Rightarrow> (Inl e, s)
           | Inr t \<Rightarrow>
               spawn_workers py respond worker_timeout n
                 (s\<lparr>worker_tasks := worker_tasks s @ [t]\<rparr>)))"

text \<open>\<^verbatim>\<open>PollingMessengerInterface.connect\<close>: the workers, then the polling loop.\<close>

definition connect ::
  "(ctx_id \<Rightarrow> response \<Rightarrow> unit awaited) \<Rightarrow> env \<Rightarrow> real option \<Rightarrow> real option \<Rightarrow> real \<Rightarrow>
   nat \<Rightarrow> polling \<Rightarrow> ((exn + unit) \<times> polling) option" where
  "connect respond env poll_timeout worker_timeout timeout fuel s =
     (case spawn_workers (python env) respond worker_timeout (nat (number_of_workers s)) s of
        (Inl e, s1) \<Rightarrow> Some (Inl e, s1)
      | (Inr u, s1) \<Rightarrow> polling_loop env poll_timeout timeout fuel s1)"

text \<open>
  \<^verbatim>\<open>asyncio.wait(tasks)\<close> raises \<open>ValueError\<close> for an empty collection; otherwise it
  returns once every task is done, whatever their outcomes, and not before.
\<close>

fun is_done :: "task \<Rightarrow> bool" where
  "is_done (Done outcome) = True"
| "is_done t = False"

definition asyncio_wait :: "task list \<Rightarrow> (exn + unit) option" where
  "asyncio_wait ts =
     (if ts = [] then Some (Inl ValueError)
      else if list_all is_done ts then Some (Inr ())
      else None)"

text \<open>
  \<^verbatim>\<open>PollingMessengerInterface.cleanup\<close>: the base class's \<^verbatim>\<open>cleanup\<close>, then
  \<^verbatim>\<open>asyncio.wait(self._worker_tasks)\<close>.
\<close>

definition polling_cleanup :: "polling \<Rightarrow> ((exn + unit) \<times> polling) option" where
  "polling_cleanup s =
     (case cleanup s of
        None \<Rightarrow> None
      | Some (Inl e, s1) \<Rightarrow> Some (Inl e, s1)
      | Some (Inr u, s1) \<Rightarrow>
          (case asyncio_wait (worker_tasks s1) of
             None \<Rightarrow> None
           | Some r \<Rightarrow> Some (r, s1)))"

text \<open>The results of \<open>n\<close> calls of a \<^verbatim>\<open>cleanup\<close>, one after the other.\<close>

fun cleanup_calls ::
  "('s \<Rightarrow> ((exn + unit) \<times> 's) option) \<Rightarrow> nat \<Rightarrow> 's \<Rightarrow> (exn + unit) list option" where
  "cleanup_calls cleanup_impl 0 s = Some []"
| "cleanup_calls cleanup_impl (Suc n) s =
     (case cleanup_impl s of
        None \<Rightarrow> None
      | Some (r, s') \<Rightarrow>
          (case cleanup_calls cleanup_impl n s' of
             None \<Rightarrow> None
           | Some rs \<Rightarrow> Some (r # rs)))"

subsection \<open>\<^verbatim>\<open>CallbackMessengerInterface\<close>\<close>

text \<open>
  \<^verbatim>\<open>CallbackMessengerInterface.connect(self, pipeline_runner)\<close> stores the runner. It has
  no other parameter, so the call that \<^verbatim>\<open>run_in_foreground\<close> makes, with the keyword
  arguments \<^verbatim>\<open>loop\<close>, \<^verbatim>\<open>poll_timeout\<close>, \<^verbatim>\<open>worker_timeout\<close> and \<^verbatim>\<open>timeout\<close>, raises
  \<open>TypeError\<close> before any coroutine exists.
\<close>

definition callback_connect :: "runner \<Rightarrow> callback \<Rightarrow> ((exn + unit) \<times> callback) option" where
  "callback_connect pipeline_runner' s = Some (Inr (), s\<lparr>pipeline_runner := Some pipeline_runner'\<rparr>)"

definition callback_connect_call ::
  "exn + (callback \<Rightarrow> ((exn + unit) \<times> callback) option)" where
  "callback_connect_call = Inl TypeError"

subsection \<open>Example surroundings\<close>

text \<open>A pipeline that answers every update after one time unit, with no lock held.\<close>

definition echo_pipeline :: pipeline where
  "echo_pipeline =
     \<lparr>run_pipeline = (\<lambda>update ctx_id. (1, Inr \<lparr>last_response = ''re: '' @ update\<rparr>)),
      locked = {}\<rparr>"

definition respond_ok :: "ctx_id \<Rightarrow> response \<Rightarrow> unit awaited" where
  "respond_ok ctx_id resp = (0, Inr ())"

text \<open>A loop predicate that is false from its first call on.\<close>

definition env_stop :: env where
  "env_stop =
     \<lparr>python = From_3_11, loop = (\<lambda>k. Inr False), get_updates = (\<lambda>i. (0, Inr None)),
      signals = (\<lambda>i. NoSignal)\<rparr>"

text \<open>
  A loop predicate that holds twice. The first fetch brings two updates after one time
  unit, the second one needs nine time units. Once on Python 3.11 or later, once on an
  earlier interpreter.
\<close>

definition env_two :: env where
  "env_two =
     \<lparr>python = From_3_11,
      loop = (\<lambda>k. Inr (k < 2)),
      get_updates = (\<lambda>i. if i = 0 then (1, Inr (Some [(''A'', ''m1''), (''B'', ''m2'')]))
                          else (9, Inr (Some [(''A'', ''m3'')]))),
      signals = (\<lambda>i. NoSignal)\<rparr>"


text \<open>
  A polling interface with two workers, bound to the pipeline, after one polling job has
  enqueued two updates of conversation \<open>A\<close>; and the same with one update.
\<close>

definition two_deliveries :: polling where
  "two_deliveries =
     snd (polling_job From_3_11 (0, Inr (Some [(''A'', ''m1''), (''A'', ''m2'')])) None
            ((PollingMessengerInterface_init 2)\<lparr>pipeline := Attr (Some echo_pipeline)\<rparr>))"


text \<open>An object of a class that derives from \<^verbatim>\<open>MessengerInterface\<close> and adds no attribute.\<close>

definition plain_interface :: iface where
  "plain_interface =
     MessengerInterface_init
       \<lparr>task = Absent, pipeline = Absent, running_in_foreground = Absent, running = Absent,
        finished_working = Absent, events = []\<rparr>"

section \<open>Properties\<close>

subsection \<open>Queue operations\<close>

lemma foldl_queue_put:
  "foldl (\<lambda>s' x. queue_put (f x) s') s xs =
     s\<lparr>request_queue := request_queue s @ map f xs,
       events := events s @ map (\<lambda>x. QueuePut (f x)) xs\<rparr>"
  by (induction xs arbitrary: s) (simp_all add: queue_put_def emit_def)

subsection \<open>The workers\<close>


lemma worker_job_blocks_on_empty_queue:
  "request_queue s = [] \<Longrightarrow> worker_job py respond wt s = None"
  by (simp add: worker_job_def)

lemma worker_never_awaits_job:
  "running s = Attr r \<Longrightarrow>
   worker py respond wt s =
     Some (Inr (),
           if r \<or> request_queue s \<noteq> [] then emit (Log INFO msg_worker_finished) s else s)"
  by (subst worker.simps) simp

lemma run_workers_inert:
  "running s = Attr r \<Longrightarrow>
   \<exists>s'. run_workers py respond wt n s = Some s'
      \<and> request_queue s' = request_queue s
      \<and> runner_invocations s' = runner_invocations s"
proof (induction n arbitrary: s)
  case 0
  then show ?case by simp
next
  case (Suc n)
  let ?s1 = "if r \<or> request_queue s \<noteq> [] then emit (Log INFO msg_worker_finished) s else s"
  have w: "worker py respond wt s = Some (Inr (), ?s1)"
    using worker_never_awaits_job[OF Suc.prems] .
  have r1: "running ?s1 = Attr r"
    using Suc.prems by (simp add: emit_def)
  have same: "request_queue ?s1 = request_queue s" "runner_invocations ?s1 = runner_invocations s"
    by (simp_all add: emit_def runner_invocations_def)
  from Suc.IH[OF r1] obtain s' where
    "run_workers py respond wt n ?s1 = Some s'"
    "request_queue s' = request_queue ?s1"
    "runner_invocations s' = runner_invocations ?s1"
    by blast
  then show ?case
    using w same by simp
qed



lemma two_deliveries_eval:
  "two_deliveries =
     (PollingMessengerInterface_init 2)
       \<lparr>pipeline := Attr (Some echo_pipeline),
        request_queue := [Some (''A'', ''m1''), Some (''A'', ''m2'')],
        events := [QueuePut (Some (''A'', ''m1'')), QueuePut (Some (''A'', ''m2''))]\<rparr>"
  by (simp add: two_deliveries_def polling_job_def atomic_def foldl_queue_put
      PollingMessengerInterface_init_def MessengerInterface_init_def)


text \<open>
  C1. Claim: whenever \<open>k\<close> deliveries for one conversation id are submitted through a
  polling interface, exactly \<open>k\<close> invocations of the pipeline runner execute, one at a
  time under the conversation's lock.

  The code does not get that far. With two deliveries of conversation \<open>A\<close> in the queue
  and both workers of the pool run to their end, the pipeline runner has been invoked
  zero times and both deliveries are still in the queue: \<^verbatim>\<open>_worker\<close> never awaits
  \<^verbatim>\<open>_worker_job\<close>, so no worker takes anything from the queue
  (\<open>run_workers_inert\<close> says so for every pool size and every queue).
\<close>

theorem workers_leave_deliveries_in_queue:
  "map_option (\<lambda>s'. (runner_invocations s', request_queue s'))
     (run_workers py respond_ok None 2 two_deliveries)
   = Some (0, [Some (''A'', ''m1''), Some (''A'', ''m2'')])"
  by (simp add: two_deliveries_eval numeral_2_eq_2 worker_never_awaits_job[where r = True]
      PollingMessengerInterface_init_def MessengerInterface_init_def emit_def
      runner_invocations_def)



subsection \<open>Shutdown and the foreground run\<close>

lemma shutdown_no_task:
  "task s = Absent \<or> task s = Attr None \<Longrightarrow>
   shutdown on_cancel s =
     (Inl AttributeError,
      emit (SetRunning False) ((emit (Log INFO msg_shutdown_called) s)\<lparr>running := Attr False\<rparr>))"
  by (auto simp: shutdown_def emit_def Let_def)

lemma shutdown_result:
  "task s = Attr (Some t) \<Longrightarrow> finished_working s = Attr fw \<Longrightarrow>
   fst (shutdown on_cancel s) =
     (case task_await on_cancel (task_cancel t) of
        Inr u \<Rightarrow> Inr ()
      | Inl e \<Rightarrow> if e = CancelledError then (if fw then Inr () else Inl CancelledError) else Inl e)"
  by (auto simp: shutdown_def emit_def Let_def split: sum.splits)

lemma run_in_foreground_unfold:
  "run_in_foreground pl (Inr connect_coro) cleanup_impl s =
     (case connect_coro (foreground_start pl s) of
        None \<Rightarrow> None
      | Some (outcome, s3) \<Rightarrow>
          (case cleanup_impl (before_cleanup outcome s3) of
             None \<Rightarrow> None
           | Some (Inl e, s6) \<Rightarrow> Some (Inl e, s6)
           | Some (Inr u, s6) \<Rightarrow>
               if outcome = Inr () \<or> outcome = Inl CancelledError
               then Some (Inr (), s6\<lparr>finished_working := Attr True\<rparr>)
               else Some (outcome, s6)))"
  unfolding run_in_foreground_def foreground_start_def before_cleanup_def Let_def
  by (simp split: option.split sum.split prod.split)


lemma run_in_foreground_returned:
  assumes "run_in_foreground pl (Inr connect_coro) cleanup_impl s = Some (Inr (), s')"
    and "\<And>x r y. cleanup_impl x = Some (r, y) \<Longrightarrow> task y = task x"
  shows "finished_working s' = Attr True
     \<and> (task s' = Attr (Some (Done (Inr ()))) \<or> task s' = Attr (Some (Done (Inl CancelledError))))"
proof -
  note run = assms(1)[unfolded run_in_foreground_unfold]
  from run obtain outcome s3 where c: "connect_coro (foreground_start pl s) = Some (outcome, s3)"
    by (cases "connect_coro (foreground_start pl s)") auto
  from run c obtain r s6 where cl: "cleanup_impl (before_cleanup outcome s3) = Some (r, s6)"
    by (cases "cleanup_impl (before_cleanup outcome s3)") auto
  have t6: "task s6 = Attr (Some (Done outcome))"
    using assms(2)[OF cl] by (simp add: before_cleanup_def emit_def)
  from run c cl have res: "(outcome = Inr () \<or> outcome = Inl CancelledError)
      \<and> s' = s6\<lparr>finished_working := Attr True\<rparr>"
    by (cases r) (simp_all split: if_splits)
  then show ?thesis using t6 by auto
qed

lemma shutdown_after_run_returned:
  assumes "run_in_foreground pl (Inr connect_coro) cleanup_impl s = Some (Inr (), s')"
    and "\<And>x r y. cleanup_impl x = Some (r, y) \<Longrightarrow> task y = task x"
  shows "fst (shutdown on_cancel s') = Inr ()"
proof -
  from run_in_foreground_returned[OF assms] have fw: "finished_working s' = Attr True"
    and t: "task s' = Attr (Some (Done (Inr ()))) \<or> task s' = Attr (Some (Done (Inl CancelledError)))"
    by simp_all
  from t show ?thesis
  proof
    assume "task s' = Attr (Some (Done (Inr ())))"
    from shutdown_result[OF this fw] show ?thesis by simp
  next
    assume "task s' = Attr (Some (Done (Inl CancelledError)))"
    from shutdown_result[OF this fw] show ?thesis by simp
  qed
qed

lemma cleanup_keeps_task: "cleanup x = Some (r, y) \<Longrightarrow> task y = task x"
  by (simp add: cleanup_def split_paired_all) 

lemma polling_cleanup_keeps_task: "polling_cleanup x = Some (r, y) \<Longrightarrow> task y = task x"
  by (auto simp: polling_cleanup_def cleanup_def split: option.splits sum.splits)


lemma shutdown_effects:
  "task s = Attr (Some t) \<Longrightarrow>
   running (snd (shutdown on_cancel s)) = Attr False
   \<and> task (snd (shutdown on_cancel s)) = Attr (Some (Done (task_await on_cancel (task_cancel t))))
   \<and> take 3 (drop (length (events s)) (events (snd (shutdown on_cancel s))))
       = [Log INFO msg_shutdown_called, SetRunning False, TaskCancel]"
  by (auto simp: shutdown_def emit_def Let_def split: sum.splits attr.splits)

text \<open>
  C3. \<^verbatim>\<open>shutdown()\<close> on an interface whose task exists clears \<^verbatim>\<open>running\<close> and cancels
  the task (after its log line these are its first two effects). It then awaits the task.
  When that await raises \<open>CancelledError\<close>, \<^verbatim>\<open>shutdown()\<close> returns normally if and
  only if \<^verbatim>\<open>finished_working\<close> is true, and raises \<open>CancelledError\<close> if and only if it
  is false. When the task had completed on its own and \<^verbatim>\<open>finished_working\<close> is true,
  \<^verbatim>\<open>shutdown()\<close> does not raise; in particular it does not raise on the object that a
  returned \<^verbatim>\<open>run_in_foreground\<close> leaves, with the base class's \<^verbatim>\<open>cleanup\<close> or with the
  polling interface's.
\<close>

theorem shutdown_swallows_cancellation_iff_finished:
  assumes "task s = Attr (Some t)" and "finished_working s = Attr fw"
  shows "running (snd (shutdown on_cancel s)) = Attr False
     \<and> take 3 (drop (length (events s)) (events (snd (shutdown on_cancel s))))
         = [Log INFO msg_shutdown_called, SetRunning False, TaskCancel]
     \<and> (task_await on_cancel (task_cancel t) = Inl CancelledError \<longrightarrow>
          (fst (shutdown on_cancel s) = Inr ()) = fw
          \<and> (fst (shutdown on_cancel s) = Inl CancelledError) = (\<not> fw))
     \<and> (t = Done (Inr ()) \<and> fw \<longrightarrow> fst (shutdown on_cancel s) = Inr ())
     \<and> (\<forall>pl connect_coro s0 s'.
          run_in_foreground pl (Inr connect_coro) cleanup s0 = Some (Inr (), s') \<longrightarrow>
          fst (shutdown on_cancel (s' :: 'b iface_scheme)) = Inr ())
     \<and> (\<forall>pl connect_coro p0 p'.
          run_in_foreground pl (Inr connect_coro) polling_cleanup p0 = Some (Inr (), p') \<longrightarrow>
          fst (shutdown on_cancel p') = Inr ())"
proof (intro conjI allI impI)
  show "running (snd (shutdown on_cancel s)) = Attr False"
    using shutdown_effects[OF assms(1)] by (rule conjunct1)
  show "take 3 (drop (length (events s)) (events (snd (shutdown on_cancel s))))
         = [Log INFO msg_shutdown_called, SetRunning False, TaskCancel]"
    using shutdown_effects[OF assms(1), of on_cancel] by (elim conjE)
next
  assume c: "task_await on_cancel (task_cancel t) = Inl CancelledError"
  show "(fst (shutdown on_cancel s) = Inr ()) = fw"
    using shutdown_result[OF assms, of on_cancel] c by simp
  show "(fst (shutdown on_cancel s) = Inl CancelledError) = (\<not> fw)"
    using shutdown_result[OF assms, of on_cancel] c by simp
next
  assume "t = Done (Inr ()) \<and> fw"
  then show "fst (shutdown on_cancel s) = Inr ()"
    using shutdown_result[OF assms, of on_cancel] by simp
next
  fix pl connect_coro and s0 s' :: "'b iface_scheme"
  assume "run_in_foreground pl (Inr connect_coro) cleanup s0 = Some (Inr (), s')"
  from shutdown_after_run_returned[OF this cleanup_keeps_task]
  show "fst (shutdown on_cancel s') = Inr ()" .
next
  fix pl connect_coro p0 p'
  assume "run_in_foreground pl (Inr connect_coro) polling_cleanup p0 = Some (Inr (), p')"
  from shutdown_after_run_returned[OF this polling_cleanup_keeps_task]
  show "fst (shutdown on_cancel p') = Inr ()" .
qed


lemma plain_interface_simps:
  "task plain_interface = Attr None" "finished_working plain_interface = Attr False"
  "running plain_interface = Attr True" "events plain_interface = []"
  by (simp_all add: plain_interface_def MessengerInterface_init_def)

theorem shutdown_swallows_cancellation_iff_finished_witness:
  "fst (shutdown (Inl CancelledError) (plain_interface\<lparr>task := Attr (Some Running)\<rparr>))
     = Inl CancelledError
   \<and> fst (shutdown (Inl CancelledError)
            (plain_interface\<lparr>task := Attr (Some (Done (Inl CancelledError))),
                              finished_working := Attr True\<rparr>))
     = Inr ()
   \<and> running (snd (shutdown (Inl CancelledError) (plain_interface\<lparr>task := Attr (Some Running)\<rparr>)))
     = Attr False"
proof -
  have t1: "task (plain_interface\<lparr>task := Attr (Some Running)\<rparr>) = Attr (Some Running)"
    by simp
  have f1: "finished_working (plain_interface\<lparr>task := Attr (Some Running)\<rparr>) = Attr False"
    by (simp add: plain_interface_simps)
  have t2: "task (plain_interface\<lparr>task := Attr (Some (Done (Inl CancelledError))),
                              finished_working := Attr True\<rparr>)
            = Attr (Some (Done (Inl CancelledError)))"
    by simp
  have f2: "finished_working (plain_interface\<lparr>task := Attr (Some (Done (Inl CancelledError))),
                              finished_working := Attr True\<rparr>) = Attr True"
    by simp
  note first = shutdown_swallows_cancellation_iff_finished[OF t1 f1, of "Inl CancelledError"]
  note second = shutdown_swallows_cancellation_iff_finished[OF t2 f2, of "Inl CancelledError"]
  have a: "fst (shutdown (Inl CancelledError) (plain_interface\<lparr>task := Attr (Some Running)\<rparr>))
     = Inl CancelledError"
    using first[THEN conjunct2, THEN conjunct2, THEN conjunct1] by simp
  have b: "fst (shutdown (Inl CancelledError)
            (plain_interface\<lparr>task := Attr (Some (Done (Inl CancelledError))),
                              finished_working := Attr True\<rparr>))
     = Inr ()"
    using second[THEN conjunct2, THEN conjunct2, THEN conjunct1] by simp
  have c: "running (snd (shutdown (Inl CancelledError) (plain_interface\<lparr>task := Attr (Some Running)\<rparr>)))
     = Attr False"
    using first[THEN conjunct1] .
  from a b c show ?thesis by (intro conjI)
qed


text \<open>
  C9. \<^verbatim>\<open>CallbackMessengerInterface.__init__\<close> leaves \<^verbatim>\<open>task\<close>, \<^verbatim>\<open>pipeline\<close>,
  \<^verbatim>\<open>running\<close>, \<^verbatim>\<open>finished_working\<close> and \<^verbatim>\<open>running_in_foreground\<close> unassigned. On
  such an object \<^verbatim>\<open>shutdown()\<close> raises \<open>AttributeError\<close>: right after construction,
  after \<^verbatim>\<open>connect(runner)\<close>, and after an attempt of \<^verbatim>\<open>run_in_foreground\<close> (which itself
  stops at its call of \<^verbatim>\<open>connect\<close> with \<open>TypeError\<close>, before any task exists).
\<close>

theorem callback_init_skips_base_init:
  "task CallbackMessengerInterface_init = Absent
   \<and> pipeline CallbackMessengerInterface_init = Absent
   \<and> running CallbackMessengerInterface_init = Absent
   \<and> finished_working CallbackMessengerInterface_init = Absent
   \<and> running_in_foreground CallbackMessengerInterface_init = Absent
   \<and> fst (shutdown on_cancel CallbackMessengerInterface_init) = Inl AttributeError
   \<and> map_option (\<lambda>(r, s'). fst (shutdown on_cancel s'))
        (callback_connect rn CallbackMessengerInterface_init) = Some (Inl AttributeError)
   \<and> map_option (\<lambda>(r, s'). (r, fst (shutdown on_cancel s')))
        (run_in_foreground pl callback_connect_call cleanup CallbackMessengerInterface_init)
      = Some (Inl TypeError, Inl AttributeError)"
  by (simp add: shutdown_no_task CallbackMessengerInterface_init_def callback_connect_def
      callback_connect_call_def run_in_foreground_def emit_def)

text \<open>
  C10. While no task has been started, \<^verbatim>\<open>self.task\<close> is \<^verbatim>\<open>None\<close>, and \<^verbatim>\<open>shutdown()\<close>
  raises \<open>AttributeError\<close> at \<^verbatim>\<open>self.task.cancel()\<close>, having already cleared
  \<^verbatim>\<open>running\<close>: on every object whose \<^verbatim>\<open>task\<close> is \<^verbatim>\<open>None\<close>, so on an object fresh
  from \<^verbatim>\<open>MessengerInterface.__init__\<close> and on a fresh polling interface. The same
  exception comes from an object that has no \<^verbatim>\<open>task\<close> attribute at all.
\<close>

theorem shutdown_before_any_task:
  "fst (shutdown on_cancel (s\<lparr>task := Attr None\<rparr>)) = Inl AttributeError
   \<and> running (snd (shutdown on_cancel (s\<lparr>task := Attr None\<rparr>))) = Attr False
   \<and> task (snd (shutdown on_cancel (s\<lparr>task := Attr None\<rparr>))) = Attr None
   \<and> fst (shutdown on_cancel (s\<lparr>task := Absent\<rparr>)) = Inl AttributeError
   \<and> fst (shutdown on_cancel (MessengerInterface_init s)) = Inl AttributeError
   \<and> fst (shutdown on_cancel (PollingMessengerInterface_init n)) = Inl AttributeError"
  by (simp add: shutdown_no_task MessengerInterface_init_def PollingMessengerInterface_init_def
      emit_def)

subsection \<open>The foreground run and cleanup\<close>




subsection \<open>The polling job\<close>


lemma polling_job_timeout_before_3_11:
  "t \<le> fst fetch \<Longrightarrow>
   polling_job Before_3_11 fetch (Some t) s = (Inl AsyncioTimeoutError, s)"
  by (cases fetch) (simp add: polling_job_def atomic_def)

lemma polling_job_success:
  "snd (wait_for py poll_timeout (atomic fetch)) = Inr (Some updates) \<Longrightarrow>
   polling_job py fetch poll_timeout s =
     (Inr (), s\<lparr>request_queue := request_queue s @ map Some updates,
                events := events s @ map (\<lambda>u. QueuePut (Some u)) updates\<rparr>)"
  by (cases "wait_for py poll_timeout (atomic fetch)") (simp add: polling_job_def foldl_queue_put)


lemma polling_job_number_of_workers:
  "number_of_workers (snd (polling_job py fetch poll_timeout s)) = number_of_workers s"
  by (auto simp: polling_job_def foldl_queue_put emit_def
      split: prod.splits sum.splits option.splits)

lemma polling_job_worker_tasks:
  "worker_tasks (snd (polling_job py fetch poll_timeout s)) = worker_tasks s"
  by (auto simp: polling_job_def foldl_queue_put emit_def
      split: prod.splits sum.splits option.splits)

text \<open>
  C8. When the fetch succeeds with a list of pairs (within \<^verbatim>\<open>poll_timeout\<close>, if there is
  one), the polling job returns normally, and what it has appended to the queue is
  exactly that list, pair by pair in the list's order; its events are the matching
  \<^verbatim>\<open>put\<close> calls in the same order.
\<close>

theorem polling_job_enqueues_in_arrival_order:
  assumes "snd (wait_for py poll_timeout (atomic fetch)) = Inr (Some updates)"
  shows "fst (polling_job py fetch poll_timeout s) = Inr ()
     \<and> request_queue (snd (polling_job py fetch poll_timeout s))
         = request_queue s @ map Some updates
     \<and> events (snd (polling_job py fetch poll_timeout s))
         = events s @ map (\<lambda>u. QueuePut (Some u)) updates"
  unfolding polling_job_success[OF assms] by simp

theorem polling_job_enqueues_in_arrival_order_witness:
  "request_queue (snd (polling_job From_3_11
       (1, Inr (Some [(''A'', ''m1''), (''B'', ''m2''), (''A'', ''m3'')]))
       (Some 5) ((PollingMessengerInterface_init 2)\<lparr>request_queue := [Some (''C'', ''m0'')]\<rparr>)))
   = [Some (''C'', ''m0''), Some (''A'', ''m1''), Some (''B'', ''m2''), Some (''A'', ''m3'')]"
proof -
  have h: "snd (wait_for From_3_11 (Some 5)
                 (atomic (1, Inr (Some [(''A'', ''m1''), (''B'', ''m2''), (''A'', ''m3'')]))))
           = Inr (Some [(''A'', ''m1''), (''B'', ''m2''), (''A'', ''m3'')])"
    by (simp add: atomic_def)
  show ?thesis
    unfolding polling_job_enqueues_in_arrival_order[OF h, THEN conjunct2, THEN conjunct1]
    by simp
qed

subsection \<open>The polling loop\<close>




lemma polling_while_keeps:
  "polling_while env poll_timeout timeout i fuel s = Some (r, j, s1) \<Longrightarrow>
   number_of_workers s1 = number_of_workers s \<and> worker_tasks s1 = worker_tasks s"
proof (induction fuel arbitrary: i s)
  case 0
  then show ?case by simp
next
  case (Suc fuel)
  obtain r1 s1' where pj:
    "polling_job (python env) (get_updates env i) poll_timeout s = (r1, s1')"
    by (cases "polling_job (python env) (get_updates env i) poll_timeout s")
  have k1: "number_of_workers s1' = number_of_workers s \<and> worker_tasks s1' = worker_tasks s"
    using polling_job_number_of_workers[of "python env" "get_updates env i" poll_timeout s]
      polling_job_worker_tasks[of "python env" "get_updates env i" poll_timeout s] pj
    by simp
  show ?case
  proof (cases "loop env i = Inr True \<and> running s = Attr True
                \<and> signals env i \<noteq> CancelledInFetch \<and> r1 = Inr ()
                \<and> signals env i \<noteq> CancelledInSleep")
    case True
    let ?s2 = "emit (Sleep timeout) s1'"
    let ?s3 = "if signals env i = StopRequested then ?s2\<lparr>running := Attr False\<rparr> else ?s2"
    from True pj Suc.prems
    have "polling_while env poll_timeout timeout (Suc i) fuel ?s3 = Some (r, j, s1)"
      by (simp add: Let_def)
    from Suc.IH[OF this]
    have "number_of_workers s1 = number_of_workers ?s3 \<and> worker_tasks s1 = worker_tasks ?s3" .
    then show ?thesis using k1 by (simp add: emit_def)
  next
    case False
    with Suc.prems pj k1 show ?thesis
      by (auto simp: Let_def emit_def split: if_splits attr.splits sum.splits)
  qed
qed

lemma polling_while_normal_exit:
  "polling_while env poll_timeout timeout i fuel s = Some (Inr (), j, s1) \<Longrightarrow>
   loop env j = Inr False \<or> (loop env j = Inr True \<and> running s1 = Attr False)"
proof (induction fuel arbitrary: i s)
  case 0
  then show ?case by simp
next
  case (Suc fuel)
  obtain r1 s1' where pj:
    "polling_job (python env) (get_updates env i) poll_timeout s = (r1, s1')"
    by (cases "polling_job (python env) (get_updates env i) poll_timeout s")
  show ?case
  proof (cases "loop env i = Inr True \<and> running s = Attr True
                \<and> signals env i \<noteq> CancelledInFetch \<and> r1 = Inr ()
                \<and> signals env i \<noteq> CancelledInSleep")
    case True
    let ?s2 = "emit (Sleep timeout) s1'"
    let ?s3 = "if signals env i = StopRequested then ?s2\<lparr>running := Attr False\<rparr> else ?s2"
    from True pj Suc.prems
    have "polling_while env poll_timeout timeout (Suc i) fuel ?s3 = Some (Inr (), j, s1)"
      by (simp add: Let_def)
    from Suc.IH[OF this] show ?thesis .
  next
    case False
    with Suc.prems pj show ?thesis
      by (auto simp: Let_def split: if_splits attr.splits sum.splits)
  qed
qed

lemma polling_while_exits:
  "loop env (i + k) = Inr False \<Longrightarrow> k < fuel \<Longrightarrow>
   polling_while env poll_timeout timeout i fuel s \<noteq> None"
proof (induction k arbitrary: i fuel s)
  case 0
  then obtain f where "fuel = Suc f" by (cases fuel) auto
  with 0 show ?case by simp
next
  case (Suc k)
  then obtain f where f: "fuel = Suc f" "k < f" by (cases fuel) auto
  have "loop env (Suc i + k) = Inr False" using Suc.prems(1) by simp
  from Suc.IH[OF this f(2)]
  have ih: "\<And>s'. polling_while env poll_timeout timeout (Suc i) f s' \<noteq> None" .
  show ?case unfolding f(1)
    using ih by (auto simp: Let_def split: attr.splits sum.splits prod.splits)
qed

lemma polling_loop_finally_closed:
  "polling_loop_finally (Inr b) s =
     (Inr (),
      s\<lparr>running := Attr False,
        events := events s
           @ [SetRunning False, Log INFO (if b then msg_stop_signal else msg_loop_false)]
           @ replicate (nat (number_of_workers s)) (QueuePut None),
        request_queue := request_queue s @ replicate (nat (number_of_workers s)) None\<rparr>)"
  by (simp add: polling_loop_finally_def Let_def foldl_queue_put emit_def map_replicate_const)

lemma polling_loop_finally_loop_raises:
  "polling_loop_finally (Inl e) s =
     (Inl e, s\<lparr>running := Attr False, events := events s @ [SetRunning False]\<rparr>)"
  by (simp add: polling_loop_finally_def emit_def)


lemma polling_loop_keeps_worker_tasks:
  assumes "polling_loop env poll_timeout timeout fuel s = Some (r, s')"
  shows "worker_tasks s' = worker_tasks s"
proof -
  from assms obtain r0 i s1 where
    w: "polling_while env poll_timeout timeout 0 fuel s = Some (r0, i, s1)"
    by (auto simp: polling_loop_def split: option.splits)
  have k: "worker_tasks s1 = worker_tasks s"
    using polling_while_keeps[OF w] by simp
  show ?thesis
  proof (cases "loop env (Suc i)")
    case (Inl e)
    with assms w k show ?thesis
      by (auto simp: polling_loop_def polling_loop_finally_loop_raises)
  next
    case (Inr b)
    with assms w k show ?thesis
      by (auto simp: polling_loop_def polling_loop_finally_closed)
  qed
qed

lemma polling_loop_two_cycles:
  "map_option (\<lambda>(r, s'). (r, events s', request_queue s', running s'))
     (polling_loop env_two (Some 5) 0 3 (PollingMessengerInterface_init 2))
   = Some (Inr (),
       [QueuePut (Some (''A'', ''m1'')), QueuePut (Some (''B'', ''m2'')), Sleep 0,
        Log DEBUG msg_poll_timeout, Sleep 0,
        SetRunning False, Log INFO msg_loop_false, QueuePut None, QueuePut None],
       [Some (''A'', ''m1''), Some (''B'', ''m2''), None, None],
       Attr False)"
  by (simp add: numeral_3_eq_3 numeral_2_eq_2 polling_loop_def polling_loop_finally_closed
      polling_job_def atomic_def foldl_queue_put env_two_def
      PollingMessengerInterface_init_def MessengerInterface_init_def emit_def)




lemma polling_while_two_cycles:
  "polling_while env_two (Some 5) 0 0 3 (PollingMessengerInterface_init 2)
   = Some (Inr (), 2,
       (PollingMessengerInterface_init 2)
         \<lparr>request_queue := [Some (''A'', ''m1''), Some (''B'', ''m2'')],
          events := [QueuePut (Some (''A'', ''m1'')), QueuePut (Some (''B'', ''m2'')), Sleep 0,
                     Log DEBUG msg_poll_timeout, Sleep 0]\<rparr>)"
  by (simp add: numeral_3_eq_3 polling_job_def atomic_def foldl_queue_put env_two_def
      PollingMessengerInterface_init_def MessengerInterface_init_def emit_def)

text \<open>
  What the \<^verbatim>\<open>finally\<close> block does on the other ways out, for the record: after an
  exception or a cancellation it does the same as after a normal exit, as long as its own
  call of \<^verbatim>\<open>loop()\<close> returns; when that call raises, \<^verbatim>\<open>running\<close> has been cleared and
  no sentinel is enqueued.
\<close>

lemma polling_loop_exit_any:
  assumes "polling_while env poll_timeout timeout 0 fuel s = Some (r, i, s1)"
  shows "loop env (Suc i) = Inr b \<Longrightarrow>
         polling_loop env poll_timeout timeout fuel s = Some (r, snd (polling_loop_finally (Inr b) s1))"
    and "loop env (Suc i) = Inl e \<Longrightarrow>
         polling_loop env poll_timeout timeout fuel s =
           Some (Inl e, s1\<lparr>running := Attr False, events := events s1 @ [SetRunning False]\<rparr>)"
  using assms
  by (simp_all add: polling_loop_def polling_loop_finally_closed polling_loop_finally_loop_raises)

text \<open>
  C4, as the claim states it: on leaving, the loop enqueues the sentinels and then clears
  \<^verbatim>\<open>running\<close>. With two workers and a loop predicate that is false at once, the
  \<^verbatim>\<open>finally\<close> block assigns \<^verbatim>\<open>self.running = False\<close> first, logs, and enqueues the two
  sentinels last.
\<close>

theorem polling_loop_exit_order_counterexample:
  "map_option (\<lambda>(r, s'). (r, events s', last (events s')))
     (polling_loop env_stop None 0 1 (PollingMessengerInterface_init 2))
   = Some (Inr (),
           [SetRunning False, Log INFO msg_loop_false, QueuePut None, QueuePut None],
           QueuePut None)"
  by (simp add: numeral_2_eq_2 polling_loop_def polling_loop_finally_closed env_stop_def
      PollingMessengerInterface_init_def MessengerInterface_init_def)

text \<open>
  C4, amended. Whenever the polling loop is left because the loop predicate returned
  false or \<^verbatim>\<open>running\<close> was cleared (these are the normal ways out of the \<^verbatim>\<open>while\<close>
  loop), and the predicate returns when the exit path calls it once more for its log
  line, \<^verbatim>\<open>_polling_loop\<close> returns normally, having first cleared \<^verbatim>\<open>running\<close>, then
  logged why it stopped, and then enqueued exactly \<^verbatim>\<open>number_of_workers\<close> sentinels (none
  if that number is not positive): these are its last events, in this order, and the
  sentinels are the last items of the queue.
\<close>

theorem polling_loop_exit_clears_then_enqueues:
  assumes "polling_while env poll_timeout timeout 0 fuel s = Some (Inr (), i, s1)"
    and "loop env (Suc i) = Inr b"
  shows "(loop env i = Inr False \<or> (loop env i = Inr True \<and> running s1 = Attr False))
     \<and> polling_loop env poll_timeout timeout fuel s =
         Some (Inr (),
           s1\<lparr>running := Attr False,
              events := events s1
                @ [SetRunning False, Log INFO (if b then msg_stop_signal else msg_loop_false)]
                @ replicate (nat (number_of_workers s)) (QueuePut None),
              request_queue := request_queue s1 @ replicate (nat (number_of_workers s)) None\<rparr>)"
proof
  show "loop env i = Inr False \<or> (loop env i = Inr True \<and> running s1 = Attr False)"
    using assms(1) by (rule polling_while_normal_exit)
  have n: "number_of_workers s1 = number_of_workers s"
    using polling_while_keeps[OF assms(1)] by simp
  show "polling_loop env poll_timeout timeout fuel s =
         Some (Inr (),
           s1\<lparr>running := Attr False,
              events := events s1
                @ [SetRunning False, Log INFO (if b then msg_stop_signal else msg_loop_false)]
                @ replicate (nat (number_of_workers s)) (QueuePut None),
              request_queue := request_queue s1 @ replicate (nat (number_of_workers s)) None\<rparr>)"
    using assms n by (simp add: polling_loop_def polling_loop_finally_closed)
qed

theorem polling_loop_exit_clears_then_enqueues_witness:
  "map_option (\<lambda>(r, s'). (r, events s', request_queue s', running s'))
     (polling_loop env_two (Some 5) 0 3 (PollingMessengerInterface_init 2))
   = Some (Inr (),
       [QueuePut (Some (''A'', ''m1'')), QueuePut (Some (''B'', ''m2'')), Sleep 0,
        Log DEBUG msg_poll_timeout, Sleep 0,
        SetRunning False, Log INFO msg_loop_false, QueuePut None, QueuePut None],
       [Some (''A'', ''m1''), Some (''B'', ''m2''), None, None],
       Attr False)"
proof -
  have l: "loop env_two (Suc 2) = Inr False"
    by (simp add: env_two_def)
  note w = polling_loop_exit_clears_then_enqueues[OF polling_while_two_cycles l, THEN conjunct2]
  show ?thesis
    unfolding w
    by (simp add: PollingMessengerInterface_init_def MessengerInterface_init_def numeral_2_eq_2)
qed

subsection \<open>Connecting, and cleanup of the polling interface\<close>

lemma spawn_workers_raises:
  "spawn_workers py respond wt (Suc n) s = (Inl TypeError, s)"
  by simp

lemma connect_with_workers:
  "0 < number_of_workers s \<Longrightarrow>
   connect respond env poll_timeout wt timeout fuel s = Some (Inl TypeError, s)"
proof -
  assume "0 < number_of_workers s"
  then obtain n where "nat (number_of_workers s) = Suc n"
    by (cases "nat (number_of_workers s)") auto
  then show ?thesis by (simp add: connect_def)
qed

lemma connect_without_workers:
  "number_of_workers s \<le> 0 \<Longrightarrow>
   connect respond env poll_timeout wt timeout fuel s = polling_loop env poll_timeout timeout fuel s"
  by (simp add: connect_def)

lemma connect_keeps_worker_tasks:
  assumes "connect respond env poll_timeout wt timeout fuel s = Some (r, s')"
  shows "worker_tasks s' = worker_tasks s"
proof (cases "0 < number_of_workers s")
  case True
  with assms show ?thesis by (simp add: connect_with_workers)
next
  case False
  with assms have "polling_loop env poll_timeout timeout fuel s = Some (r, s')"
    by (simp add: connect_without_workers)
  then show ?thesis by (rule polling_loop_keeps_worker_tasks)
qed

lemma cleanup_calls_base: "cleanup_calls cleanup n s = Some (replicate n (Inr ()))"
  by (induction n) (simp_all add: cleanup_def)

lemma polling_cleanup_empty:
  "worker_tasks s = [] \<Longrightarrow> polling_cleanup s = Some (Inl ValueError, s)"
  by (simp add: polling_cleanup_def cleanup_def asyncio_wait_def)

lemma polling_cleanup_after_connect:
  assumes "connect respond env poll_timeout wt timeout fuel (PollingMessengerInterface_init n)
           = Some (r, s')"
  shows "polling_cleanup s' = Some (Inl ValueError, s')"
proof -
  have "worker_tasks s' = worker_tasks (PollingMessengerInterface_init n)"
    using assms by (rule connect_keeps_worker_tasks)
  then have "worker_tasks s' = []"
    by (simp add: PollingMessengerInterface_init_def MessengerInterface_init_def)
  then show ?thesis by (rule polling_cleanup_empty)
qed

text \<open>
  C6. Claim: \<^verbatim>\<open>cleanup()\<close> may be called any number of times on any messenger
  interface, in every lifecycle state, and no call raises.

  The base class's \<^verbatim>\<open>cleanup\<close> is like that (\<open>cleanup_calls_base\<close>). The polling
  interface's is not: it awaits \<^verbatim>\<open>asyncio.wait(self._worker_tasks)\<close>, and the list is
  empty. On an interface fresh from its constructor the first call raises
  \<open>ValueError\<close>; and \<^verbatim>\<open>connect\<close> never adds a task to the list (with a positive number
  of workers it ends with \<open>TypeError\<close> at the first \<^verbatim>\<open>create_task\<close>), so the call
  raises after \<^verbatim>\<open>connect\<close> as well (\<open>polling_cleanup_after_connect\<close>).
\<close>

theorem polling_cleanup_raises_without_worker_tasks:
  "cleanup_calls polling_cleanup 1 (PollingMessengerInterface_init 2) = Some [Inl ValueError]
   \<and> map_option (\<lambda>(r, s'). (r, map_option fst (polling_cleanup s')))
        (connect respond_ok env_two (Some 5) None 0 3 (PollingMessengerInterface_init 2))
     = Some (Inl TypeError, Some (Inl ValueError))"
  by (simp add: polling_cleanup_empty connect_with_workers PollingMessengerInterface_init_def
      MessengerInterface_init_def)

end
